theory Spec2Isabelle
  imports Main "HOL-Library.Sublist"
begin

section \<open>Data model of \<^verbatim>\<open>src/App.tsx\<close>\<close>

text \<open>
  The editor keeps four React state cells in \<^verbatim>\<open>SwiftXR3DEditor\<close>
  (\<^verbatim>\<open>modelUrl\<close>, \<^verbatim>\<open>hotspots\<close>, \<^verbatim>\<open>isLoading\<close>, \<^verbatim>\<open>error\<close>) and changes
  them only inside event handlers. The cells are one record here, every setter is a
  function on that record, and a handler is the composition of its setter calls in program
  order. What a handler reads from the browser (the selected file, the outcome of
  \<^verbatim>\<open>URL.createObjectURL\<close>, the answer of \<^verbatim>\<open>prompt\<close>, the reading of
  \<^verbatim>\<open>Date.now()\<close>) is an argument; what it does to the browser besides setting state
  is returned as a list of effects.

  A JavaScript \<^verbatim>\<open>number\<close> of a position is only copied, never computed with, so the
  type of coordinates is the parameter \<open>'n\<close>. Strings are lists of \<^typ>\<open>char\<close>, a
  character standing for the UTF-16 code unit of the same value (below 256).
\<close>

datatype 'n Vector3 = Vector3 (vec_x: 'n) (vec_y: 'n) (vec_z: 'n)

record 'n Hotspot =
  id_h :: string
  position :: "'n \<times> 'n \<times> 'n"
  label :: string

record 'n Session =
  modelUrl :: "string option"
  hotspots :: "'n Hotspot list"
  isLoading :: bool
  error :: "string option"

text \<open>The attributes of a DOM \<^verbatim>\<open>File\<close>; the handler reads \<^verbatim>\<open>name\<close> only.\<close>

record File =
  name :: string
  mime_type :: string
  size_f :: nat

record 'n ThreeEvent =
  shiftKey :: bool
  point :: "'n Vector3"

datatype js_error = Thrown string

datatype effect =
    RevokeObjectURL string
  | ConsoleError js_error
  | StopPropagation
  | Prompt string

text \<open>\<^verbatim>\<open>useState\<close> initial values, lines 142 to 145.\<close>

definition initial :: "'n Session" where
  "initial = \<lparr>modelUrl = None, hotspots = [], isLoading = False, error = None\<rparr>"

section \<open>JavaScript primitives the handlers use\<close>

text \<open>Truthiness of a \<^verbatim>\<open>string | null\<close>: \<^verbatim>\<open>null\<close> and the empty string are falsy.\<close>

fun truthy :: "string option \<Rightarrow> bool" where
  "truthy None = False"
| "truthy (Some s) = (s \<noteq> [])"

text \<open>
  \<^verbatim>\<open>String.prototype.toLowerCase\<close> on code units below 256: the letters A to Z and the
  Latin-1 capitals (0xC0 to 0xDE without the multiplication sign 0xD7) move up by 32, every
  other code unit stays.
\<close>

definition toLowerChar :: "char \<Rightarrow> char" where
  "toLowerChar c =
     (let n = (of_char c :: nat) in
      if (65 \<le> n \<and> n \<le> 90) \<or> (192 \<le> n \<and> n \<le> 214) \<or> (216 \<le> n \<and> n \<le> 222)
      then char_of (n + 32) else c)"

definition toLowerCase :: "string \<Rightarrow> string" where
  "toLowerCase s = map toLowerChar s"

text \<open>
  \<^verbatim>\<open>String.prototype.endsWith(searchString)\<close> with the default end position: the start
  index is the length minus the length of the search string; a negative start is
  \<^verbatim>\<open>false\<close>, otherwise the code units from the start on are compared.
\<close>

definition endsWith :: "string \<Rightarrow> string \<Rightarrow> bool" where
  "endsWith s searchString =
     (if length s < length searchString then False
      else drop (length s - length searchString) s = searchString)"

text \<open>
  \<^verbatim>\<open>Number.prototype.toString\<close> on an integral time value: the decimal digits, most
  significant first, after a minus sign for a negative value. (Time values stay below
  \<open>10\<^sup>2\<^sup>1\<close> in magnitude, where the exponent notation would start.)
\<close>

fun digits_of :: "nat \<Rightarrow> string" where
  "digits_of n =
     (if n < 10 then [char_of (48 + n)]
      else digits_of (n div 10) @ [char_of (48 + n mod 10)])"

declare digits_of.simps [simp del]

definition toString :: "int \<Rightarrow> string" where
  "toString i = (if i < 0 then CHR ''-'' # digits_of (nat (- i)) else digits_of (nat i))"

section \<open>State setters\<close>

definition setModelUrl :: "string option \<Rightarrow> 'n Session \<Rightarrow> 'n Session" where
  "setModelUrl u s = s\<lparr>modelUrl := u\<rparr>"

text \<open>
  \<^verbatim>\<open>setHotspots\<close> in its functional form \<^verbatim>\<open>setHotspots(prev => ...)\<close>;
  \<^verbatim>\<open>setHotspots([])\<close> is the constant function.
\<close>

definition setHotspots ::
  "('n Hotspot list \<Rightarrow> 'n Hotspot list) \<Rightarrow> 'n Session \<Rightarrow> 'n Session" where
  "setHotspots f s = s\<lparr>hotspots := f (hotspots s)\<rparr>"

definition setIsLoading :: "bool \<Rightarrow> 'n Session \<Rightarrow> 'n Session" where
  "setIsLoading b s = s\<lparr>isLoading := b\<rparr>"

definition setError :: "string option \<Rightarrow> 'n Session \<Rightarrow> 'n Session" where
  "setError e s = s\<lparr>error := e\<rparr>"

section \<open>Handlers\<close>

text \<open>
  \<^verbatim>\<open>handleFileUpload\<close>, lines 157 to 184. \<open>file\<close> is \<^verbatim>\<open>event.target.files?.[0]\<close>;
  \<open>created\<close> is what \<^verbatim>\<open>URL.createObjectURL(file)\<close> does when it is reached: it returns a
  URL or throws. The function has no \<^verbatim>\<open>await\<close>, so it runs to its end within the event.
  The closure reads \<^verbatim>\<open>modelUrl\<close> as it was at the last render, which is the session
  the handler starts from. The \<^verbatim>\<open>useEffect\<close> cleanup of lines 149 to 155 revokes the
  old URL once more when \<^verbatim>\<open>modelUrl\<close> changes; it sets no state and is left out.
\<close>

definition acceptsName :: "string \<Rightarrow> bool" where
  "acceptsName nm = endsWith (toLowerCase nm) ''.glb''"

definition handleFileUpload ::
  "File option \<Rightarrow> js_error + string \<Rightarrow> 'n Session \<Rightarrow> 'n Session \<times> effect list" where
  "handleFileUpload file created s =
     (case file of
        None \<Rightarrow> (s, [])
      | Some f \<Rightarrow>
          if \<not> acceptsName (name f)
          then (setError (Some ''Please select a .GLB file'') s, [])
          else
            let s1 = setError None (setIsLoading True s);
                revoked = (if truthy (modelUrl s)
                           then [RevokeObjectURL (the (modelUrl s))] else []);
                (s2, logged) =
                  (case created of
                     Inr url \<Rightarrow> (setHotspots (\<lambda>_. []) (setModelUrl (Some url) s1), [])
                   | Inl err \<Rightarrow> (setError (Some ''Failed to load model'') s1,
                                 [ConsoleError err]))
            in (setIsLoading False s2, revoked @ logged))"

text \<open>\<^verbatim>\<open>addHotspot\<close>, lines 186 to 193. \<open>now\<close> is the reading of \<^verbatim>\<open>Date.now()\<close>.\<close>

definition addHotspot :: "int \<Rightarrow> 'n Vector3 \<Rightarrow> string \<Rightarrow> 'n Session \<Rightarrow> 'n Session" where
  "addHotspot now pos lbl s =
     (let newHotspot = \<lparr>id_h = toString now,
                        position = (vec_x pos, vec_y pos, vec_z pos),
                        label = lbl\<rparr>
      in setHotspots (\<lambda>prev. prev @ [newHotspot]) s)"

text \<open>\<^verbatim>\<open>deleteHotspot\<close>, lines 195 to 197.\<close>

definition deleteHotspot :: "string \<Rightarrow> 'n Session \<Rightarrow> 'n Session" where
  "deleteHotspot i s = setHotspots (\<lambda>prev. filter (\<lambda>h. id_h h \<noteq> i) prev) s"

text \<open>\<^verbatim>\<open>clearHotspots\<close>, lines 199 to 201.\<close>

definition clearHotspots :: "'n Session \<Rightarrow> 'n Session" where
  "clearHotspots s = setHotspots (\<lambda>_. []) s"

text \<open>
  \<^verbatim>\<open>handleClick\<close> of the \<^verbatim>\<open>Model\<close> component, lines 78 to 87, with \<^verbatim>\<open>onAddHotspot\<close>
  bound to \<^verbatim>\<open>addHotspot\<close> (line 274). \<open>answer\<close> is what \<^verbatim>\<open>prompt\<close> returns when it is
  called: \<^verbatim>\<open>null\<close> on cancel, the typed text otherwise.
\<close>

definition handleClick ::
  "'n ThreeEvent \<Rightarrow> string option \<Rightarrow> int \<Rightarrow> 'n Session \<Rightarrow> 'n Session \<times> effect list" where
  "handleClick event answer now s =
     (if shiftKey event
      then
        (let pt = point event;
             lbl = answer
         in (if truthy lbl then addHotspot now pt (the lbl) s else s,
             [StopPropagation, Prompt ''Enter hotspot label:'']))
      else (s, []))"

section \<open>The editor as a transition system\<close>

text \<open>
  The events a user can raise and when the rendered tree offers them. The file input is
  always rendered (line 219). The \<^verbatim>\<open>Model\<close> with its click handler is rendered only
  under \<^verbatim>\<open>modelUrl &&\<close> (line 109) inside the canvas branch of \<^verbatim>\<open>!modelUrl ? ... : ...\<close>
  (line 253). A delete button exists per rendered hotspot and calls \<^verbatim>\<open>deleteHotspot\<close>
  with that hotspot's id (lines 120 and 302). The clear button is rendered under
  \<^verbatim>\<open>modelUrl &&\<close> (line 227).
\<close>

datatype 'n ui_event =
    FileChosen "File option" "js_error + string"
  | ModelClick "'n ThreeEvent" "string option" int
  | DeleteClick string
  | ClearClick

fun offered :: "'n Session \<Rightarrow> 'n ui_event \<Rightarrow> bool" where
  "offered s (FileChosen file created) = True"
| "offered s (ModelClick event answer now) = truthy (modelUrl s)"
| "offered s (DeleteClick i) = (i \<in> set (map id_h (hotspots s)))"
| "offered s ClearClick = truthy (modelUrl s)"

fun step :: "'n Session \<Rightarrow> 'n ui_event \<Rightarrow> 'n Session" where
  "step s (FileChosen file created) = fst (handleFileUpload file created s)"
| "step s (ModelClick event answer now) = fst (handleClick event answer now s)"
| "step s (DeleteClick i) = deleteHotspot i s"
| "step s ClearClick = clearHotspots s"

inductive reachable :: "'n Session \<Rightarrow> bool" where
  reachable_initial: "reachable initial"
| reachable_step: "reachable s \<Longrightarrow> offered s e \<Longrightarrow> reachable (step s e)"

section \<open>Notions of the specification\<close>

text \<open>
  The specification speaks of a label that is ``empty after trimming''.
  \<^verbatim>\<open>String.prototype.trim\<close> removes white space at both ends; on code units below 256 the
  white space characters are tab, line feed, vertical tab, form feed, carriage return,
  space and no-break space.
\<close>

definition isWhiteSpace :: "char \<Rightarrow> bool" where
  "isWhiteSpace c = (of_char c \<in> {9, 10, 11, 12, 13, 32, 160 :: nat})"

definition trim_spec :: "string \<Rightarrow> string" where
  "trim_spec s = rev (dropWhile isWhiteSpace (rev (dropWhile isWhiteSpace s)))"

section \<open>Example sessions\<close>

text \<open>Concrete files, clicks and sessions used to run the handlers, with integer coordinates.\<close>

definition scene_glb :: File where
  "scene_glb = \<lparr>name = ''scene.glb'', mime_type = ''model/gltf-binary'', size_f = 2048\<rparr>"

definition notes_txt :: File where
  "notes_txt = \<lparr>name = ''notes.txt'', mime_type = ''text/plain'', size_f = 12\<rparr>"

text \<open>A file with an upper-case extension and attributes that do not fit a model.\<close>

definition upper_glb :: File where
  "upper_glb = \<lparr>name = ''SCENE.GLB'', mime_type = ''text/plain'', size_f = 0\<rparr>"

definition shift_click :: "int ThreeEvent" where
  "shift_click = \<lparr>shiftKey = True, point = Vector3 1 2 3\<rparr>"

definition plain_click :: "int ThreeEvent" where
  "plain_click = \<lparr>shiftKey = False, point = Vector3 1 2 3\<rparr>"

text \<open>
  A model is imported; one hotspot is placed at clock reading 1730000000000; a second one is
  placed at the same clock reading.
\<close>

definition loaded :: "int Session" where
  "loaded = step initial (FileChosen (Some scene_glb) (Inr ''blob:scene''))"

definition one_hotspot :: "int Session" where
  "one_hotspot = step loaded (ModelClick shift_click (Some ''Engine'') 1730000000000)"

definition same_tick :: "int Session" where
  "same_tick = step one_hotspot (ModelClick shift_click (Some ''Wheel'') 1730000000000)"

text \<open>A third hotspot is placed half a second later.\<close>

definition mixed :: "int Session" where
  "mixed = step same_tick (ModelClick shift_click (Some ''Door'') 1730000000500)"

section \<open>Facts about the primitives\<close>

lemmas setter_defs = setModelUrl_def setHotspots_def setIsLoading_def setError_def

lemma of_char_lt: "(of_char c :: nat) < 256"
  by simp

lemma char_eq_iff_nat: "c = d \<longleftrightarrow> (of_char c :: nat) = of_char d"
  by simp

lemma toLowerChar_dot: "toLowerChar c = CHR ''.'' \<longleftrightarrow> c = CHR ''.''"
  using of_char_lt [of c]
  by (auto simp: toLowerChar_def Let_def char_eq_iff_nat [of _ "CHR ''.''"])

lemma toLowerChar_g: "toLowerChar c = CHR ''g'' \<longleftrightarrow> c = CHR ''g'' \<or> c = CHR ''G''"
  using of_char_lt [of c]
  by (auto simp: toLowerChar_def Let_def char_eq_iff_nat [of _ "CHR ''g''"] char_eq_iff_nat [of _ "CHR ''G''"])

lemma toLowerChar_l: "toLowerChar c = CHR ''l'' \<longleftrightarrow> c = CHR ''l'' \<or> c = CHR ''L''"
  using of_char_lt [of c]
  by (auto simp: toLowerChar_def Let_def char_eq_iff_nat [of _ "CHR ''l''"] char_eq_iff_nat [of _ "CHR ''L''"])

lemma toLowerChar_b: "toLowerChar c = CHR ''b'' \<longleftrightarrow> c = CHR ''b'' \<or> c = CHR ''B''"
  using of_char_lt [of c]
  by (auto simp: toLowerChar_def Let_def char_eq_iff_nat [of _ "CHR ''b''"] char_eq_iff_nat [of _ "CHR ''B''"])

lemma endsWith_suffix: "endsWith s t \<longleftrightarrow> (\<exists>pre. s = pre @ t)"
proof
  assume "endsWith s t"
  then have "length t \<le> length s" and d: "drop (length s - length t) s = t"
    by (auto simp: endsWith_def split: if_splits)
  have "s = take (length s - length t) s @ drop (length s - length t) s" by simp
  with d show "\<exists>pre. s = pre @ t" by metis
next
  assume "\<exists>pre. s = pre @ t"
  then show "endsWith s t" by (auto simp: endsWith_def)
qed

lemma lower_glb_iff:
  "map toLowerChar vs = ''.glb'' \<longleftrightarrow>
     (\<exists>a b c. vs = [CHR ''.'', a, b, c] \<and>
        (a = CHR ''g'' \<or> a = CHR ''G'') \<and> (b = CHR ''l'' \<or> b = CHR ''L'') \<and>
        (c = CHR ''b'' \<or> c = CHR ''B''))"
  by (auto simp: map_eq_Cons_conv toLowerChar_dot toLowerChar_g toLowerChar_l toLowerChar_b)

lemma accepts_split:
  "acceptsName nm \<longleftrightarrow> (\<exists>pre vs. nm = pre @ vs \<and> map toLowerChar vs = ''.glb'')"
proof
  assume "acceptsName nm"
  then obtain p where "map toLowerChar nm = p @ ''.glb''"
    by (auto simp: acceptsName_def endsWith_suffix toLowerCase_def)
  then have "\<exists>us vs. nm = us @ vs \<and> p = map toLowerChar us \<and> ''.glb'' = map toLowerChar vs"
    by (simp only: map_eq_append_conv)
  then obtain us vs where "nm = us @ vs" and "''.glb'' = map toLowerChar vs"
    by (elim exE conjE)
  then have "nm = us @ vs \<and> map toLowerChar vs = ''.glb''" by simp
  then show "\<exists>pre vs. nm = pre @ vs \<and> map toLowerChar vs = ''.glb''" by (intro exI)
next
  assume "\<exists>pre vs. nm = pre @ vs \<and> map toLowerChar vs = ''.glb''"
  then obtain pre vs where "nm = pre @ vs" and "map toLowerChar vs = ''.glb''" by auto
  then have "map toLowerChar nm = map toLowerChar pre @ ''.glb''" by simp
  then show "acceptsName nm"
    by (simp add: acceptsName_def endsWith_suffix toLowerCase_def)
qed

lemma acceptsName_iff:
  "acceptsName nm \<longleftrightarrow>
     (\<exists>pre a b c. nm = pre @ [CHR ''.'', a, b, c] \<and>
        (a = CHR ''g'' \<or> a = CHR ''G'') \<and> (b = CHR ''l'' \<or> b = CHR ''L'') \<and>
        (c = CHR ''b'' \<or> c = CHR ''B''))"
  unfolding accepts_split lower_glb_iff by fast

lemma digits_of_ne: "digits_of n \<noteq> []"
  by (subst digits_of.simps) simp

lemma digit_inj: "a < 10 \<Longrightarrow> b < 10 \<Longrightarrow> char_of (48 + a :: nat) = char_of (48 + b) \<Longrightarrow> a = b"
  by (simp add: char_of_eq_iff take_bit_eq_mod)

lemma digits_of_inj: "digits_of m = digits_of n \<Longrightarrow> m = n"
proof (induction m arbitrary: n rule: digits_of.induct)
  case (1 m)
  show ?case
  proof (cases "m < 10")
    case small: True
    show ?thesis
    proof (cases "n < 10")
      case True
      with small "1.prems" show ?thesis
        by (simp add: digits_of.simps [of m] digits_of.simps [of n] digit_inj)
    next
      case False
      with small "1.prems" digits_of_ne [of "n div 10"] show ?thesis
        by (simp add: digits_of.simps [of m] digits_of.simps [of n] append_eq_Cons_conv)
    qed
  next
    case big: False
    show ?thesis
    proof (cases "n < 10")
      case True
      with big "1.prems" digits_of_ne [of "m div 10"] show ?thesis
        by (simp add: digits_of.simps [of m] digits_of.simps [of n] Cons_eq_append_conv)
    next
      case False
      with big "1.prems" have q: "digits_of (m div 10) = digits_of (n div 10)"
        and r: "char_of (48 + m mod 10) = (char_of (48 + n mod 10) :: char)"
        by (simp_all add: digits_of.simps [of m] digits_of.simps [of n])
      from "1.IH" [OF big q] have "m div 10 = n div 10" .
      moreover from r have "m mod 10 = n mod 10"
        by (intro digit_inj) simp_all
      ultimately show ?thesis
        by (metis div_mult_mod_eq)
    qed
  qed
qed

lemma digits_of_no_minus: "CHR ''-'' \<notin> set (digits_of n)"
proof (induction n rule: digits_of.induct)
  case (1 n)
  have d: "char_of (48 + k :: nat) \<noteq> CHR ''-''" if "k < 10" for k
    using that by (simp add: char_of_eq_iff take_bit_eq_mod)
  show ?case
  proof (cases "n < 10")
    case True
    then show ?thesis using d [of n] by (auto simp: digits_of.simps [of n])
  next
    case False
    with 1 show ?thesis using d [of "n mod 10"] by (auto simp: digits_of.simps [of n])
  qed
qed

lemma toString_inj: "toString i = toString j \<Longrightarrow> i = j"
proof -
  assume e: "toString i = toString j"
  have hd_no: "digits_of n \<noteq> CHR ''-'' # xs" for n xs
    using digits_of_no_minus [of n] by (metis list.set_intros(1))
  show ?thesis
  proof (cases "i < 0")
    case ni: True
    show ?thesis
    proof (cases "j < 0")
      case True
      with ni e have "digits_of (nat (- i)) = digits_of (nat (- j))"
        by (simp add: toString_def)
      then have "nat (- i) = nat (- j)" by (rule digits_of_inj)
      with ni True show ?thesis by simp
    next
      case False
      with ni e hd_no [of "nat j" "digits_of (nat (- i))"] show ?thesis
        by (auto simp: toString_def)
    qed
  next
    case pi: False
    show ?thesis
    proof (cases "j < 0")
      case True
      with pi e hd_no [of "nat i" "digits_of (nat (- j))"] show ?thesis
        by (auto simp: toString_def)
    next
      case False
      with pi e have "digits_of (nat i) = digits_of (nat j)"
        by (simp add: toString_def)
      then have "nat i = nat j" by (rule digits_of_inj)
      with pi False show ?thesis by simp
    qed
  qed
qed

section \<open>The example sessions, evaluated\<close>

lemma accepts_scene: "acceptsName (name scene_glb)"
  by (simp add: scene_glb_def acceptsName_def endsWith_def toLowerCase_def toLowerChar_def char_of_eq_iff take_bit_eq_mod)

lemma accepts_upper: "acceptsName (name upper_glb)"
  by (simp add: upper_glb_def acceptsName_def endsWith_def toLowerCase_def toLowerChar_def char_of_eq_iff take_bit_eq_mod)

lemma rejects_notes: "\<not> acceptsName (name notes_txt)"
  by (simp add: notes_txt_def acceptsName_def endsWith_def toLowerCase_def toLowerChar_def char_of_eq_iff take_bit_eq_mod)

lemma toString_tick: "toString 1730000000000 = ''1730000000000''"
  by (simp add: toString_def digits_of.simps char_of_eq_iff take_bit_eq_mod)

lemma loaded_eq:
  "loaded = \<lparr>modelUrl = Some ''blob:scene'', hotspots = [], isLoading = False, error = None\<rparr>"
  by (simp add: loaded_def initial_def handleFileUpload_def accepts_scene setter_defs)

lemma one_hotspot_eq:
  "one_hotspot = \<lparr>modelUrl = Some ''blob:scene'',
     hotspots = [\<lparr>id_h = ''1730000000000'', position = (1, 2, 3), label = ''Engine''\<rparr>],
     isLoading = False, error = None\<rparr>"
  by (simp add: one_hotspot_def loaded_eq handleClick_def addHotspot_def shift_click_def
      setter_defs toString_tick)

lemma same_tick_eq:
  "same_tick = \<lparr>modelUrl = Some ''blob:scene'',
     hotspots = [\<lparr>id_h = ''1730000000000'', position = (1, 2, 3), label = ''Engine''\<rparr>,
                 \<lparr>id_h = ''1730000000000'', position = (1, 2, 3), label = ''Wheel''\<rparr>],
     isLoading = False, error = None\<rparr>"
  by (simp add: same_tick_def one_hotspot_eq handleClick_def addHotspot_def shift_click_def
      setter_defs toString_tick)

lemma reachable_loaded: "reachable loaded"
  unfolding loaded_def by (rule reachable_step [OF reachable_initial]) simp

lemma reachable_one_hotspot: "reachable one_hotspot"
  unfolding one_hotspot_def by (rule reachable_step [OF reachable_loaded]) (simp add: loaded_eq)

lemma reachable_same_tick: "reachable same_tick"
  unfolding same_tick_def
  by (rule reachable_step [OF reachable_one_hotspot]) (simp add: one_hotspot_eq)

lemma toString_later: "toString 1730000000500 = ''1730000000500''"
  by (simp add: toString_def digits_of.simps char_of_eq_iff take_bit_eq_mod)

lemma mixed_eq:
  "mixed = \<lparr>modelUrl = Some ''blob:scene'',
     hotspots = [\<lparr>id_h = ''1730000000000'', position = (1, 2, 3), label = ''Engine''\<rparr>,
                 \<lparr>id_h = ''1730000000000'', position = (1, 2, 3), label = ''Wheel''\<rparr>,
                 \<lparr>id_h = ''1730000000500'', position = (1, 2, 3), label = ''Door''\<rparr>],
     isLoading = False, error = None\<rparr>"
  by (simp add: mixed_def same_tick_eq handleClick_def addHotspot_def shift_click_def
      setter_defs toString_later)

section \<open>Clearing the hotspots\<close>

text \<open>
  Claim C8. For every session, \<^verbatim>\<open>clearHotspots\<close> leaves an empty hotspot collection,
  and calling it a second time gives the same session as calling it once; the other three
  state cells are not touched.
\<close>

theorem clearHotspots_empty_idempotent:
  "hotspots (clearHotspots s) = [] \<and>
   clearHotspots (clearHotspots s) = clearHotspots s \<and>
   modelUrl (clearHotspots s) = modelUrl s \<and>
   isLoading (clearHotspots s) = isLoading s \<and>
   error (clearHotspots s) = error s"
  by (simp add: clearHotspots_def setHotspots_def)

section \<open>Importing a file\<close>

text \<open>
  Claim C4. For every session and every selected file whose name the extension test
  rejects, \<^verbatim>\<open>handleFileUpload\<close> leaves \<^verbatim>\<open>modelUrl\<close>, the hotspots and the
  loading flag as they were, sets the error message to \<^verbatim>\<open>Please select a .GLB file\<close>
  and has no other effect (nothing is revoked, nothing is logged).
\<close>

theorem upload_rejected_frame:
  assumes "\<not> acceptsName (name f)"
  shows "modelUrl (fst (handleFileUpload (Some f) created s)) = modelUrl s \<and>
         hotspots (fst (handleFileUpload (Some f) created s)) = hotspots s \<and>
         isLoading (fst (handleFileUpload (Some f) created s)) = isLoading s \<and>
         error (fst (handleFileUpload (Some f) created s)) = Some ''Please select a .GLB file'' \<and>
         snd (handleFileUpload (Some f) created s) = []"
  using assms by (simp add: handleFileUpload_def setError_def)

text \<open>
  The theorem at \<^verbatim>\<open>notes.txt\<close>, selected while a model with one hotspot is loaded.
\<close>

theorem upload_rejected_frame_witness:
  "\<not> acceptsName (name notes_txt) \<and>
   modelUrl (fst (handleFileUpload (Some notes_txt) (Inr ''blob:other'') one_hotspot))
     = Some ''blob:scene'' \<and>
   length (hotspots (fst (handleFileUpload (Some notes_txt) (Inr ''blob:other'') one_hotspot)))
     = 1 \<and>
   isLoading (fst (handleFileUpload (Some notes_txt) (Inr ''blob:other'') one_hotspot))
     = False \<and>
   error (fst (handleFileUpload (Some notes_txt) (Inr ''blob:other'') one_hotspot))
     = Some ''Please select a .GLB file''"
  using upload_rejected_frame [OF rejects_notes, of "Inr ''blob:other''" one_hotspot]
  by (simp add: rejects_notes one_hotspot_eq)

text \<open>
  Claim C6. For every prior session, whatever its hotspots, importing a file whose name
  passes the extension test and for which \<^verbatim>\<open>URL.createObjectURL\<close> returns resets the
  hotspot collection to empty; the model URL is the new one, the loading flag is down and
  the error is cleared.
\<close>

theorem upload_valid_resets_hotspots:
  assumes "acceptsName (name f)"
  shows "hotspots (fst (handleFileUpload (Some f) (Inr url) s)) = [] \<and>
         modelUrl (fst (handleFileUpload (Some f) (Inr url) s)) = Some url \<and>
         isLoading (fst (handleFileUpload (Some f) (Inr url) s)) = False \<and>
         error (fst (handleFileUpload (Some f) (Inr url) s)) = None"
  using assms by (simp add: handleFileUpload_def setter_defs)

text \<open>The theorem at \<^verbatim>\<open>scene.glb\<close>, imported over a session with two hotspots.\<close>

theorem upload_valid_resets_hotspots_witness:
  "acceptsName (name scene_glb) \<and> hotspots same_tick \<noteq> [] \<and>
   hotspots (fst (handleFileUpload (Some scene_glb) (Inr ''blob:next'') same_tick)) = [] \<and>
   modelUrl (fst (handleFileUpload (Some scene_glb) (Inr ''blob:next'') same_tick))
     = Some ''blob:next''"
  using upload_valid_resets_hotspots [OF accepts_scene, of "''blob:next''" same_tick]
  by (simp add: accepts_scene same_tick_eq)

section \<open>Clicking on the model\<close>

text \<open>
  Claim C7. For every click on the model: the effects of the handler are determined by the
  shift flag of the event alone. Without shift the session is unchanged and propagation is
  not stopped, so the click reaches the camera controls; with shift propagation is stopped,
  the label prompt is shown, and the session is the one \<^verbatim>\<open>addHotspot\<close> returns when
  the answer is truthy and the old one otherwise.
\<close>

theorem handleClick_dispatch:
  "snd (handleClick event answer now s) =
     (if shiftKey event then [StopPropagation, Prompt ''Enter hotspot label:''] else []) \<and>
   (\<not> shiftKey event \<longrightarrow> fst (handleClick event answer now s) = s) \<and>
   (shiftKey event \<longrightarrow>
      fst (handleClick event answer now s) =
        (if truthy answer then addHotspot now (point event) (the answer) s else s))"
  by (simp add: handleClick_def Let_def)

text \<open>The theorem at a plain click and at a shift-click on a session with one hotspot.\<close>

theorem handleClick_dispatch_witness:
  "\<not> shiftKey plain_click \<and>
   handleClick plain_click (Some ''Engine'') 1730000000500 one_hotspot = (one_hotspot, []) \<and>
   shiftKey shift_click \<and>
   StopPropagation \<in> set (snd (handleClick shift_click (Some ''Engine'') 1730000000500 one_hotspot)) \<and>
   length (hotspots (fst (handleClick shift_click (Some ''Engine'') 1730000000500 one_hotspot))) = 2"
  using handleClick_dispatch [of plain_click "Some ''Engine''" 1730000000500 one_hotspot]
    handleClick_dispatch [of shift_click "Some ''Engine''" 1730000000500 one_hotspot]
  by (simp add: plain_click_def shift_click_def one_hotspot_eq addHotspot_def setHotspots_def
      prod_eq_iff)

text \<open>
  Claim C2 as stated fails: a label that is empty after trimming but not empty, here a
  single space, is truthy, so the shift-click creates a hotspot. The session is reachable
  and offers the click.
\<close>

theorem blank_label_counterexample:
  "trim_spec '' '' = [] \<and> reachable one_hotspot \<and>
   offered one_hotspot (ModelClick shift_click (Some '' '') 1730000000500) \<and>
   length (hotspots (step one_hotspot (ModelClick shift_click (Some '' '') 1730000000500)))
     = length (hotspots one_hotspot) + 1"
  using reachable_one_hotspot
  by (simp add: trim_spec_def isWhiteSpace_def one_hotspot_eq
      handleClick_def shift_click_def addHotspot_def setHotspots_def)

text \<open>
  Claim C2, amended. For every session, a click whose prompt is cancelled or answered with
  the empty string (no trimming is applied) leaves the whole session unchanged: no hotspot
  is created and the error cell keeps its value. A shift-click answered with any label
  that is not the empty string appends a hotspot with that label; in particular a label
  of white space only, which is empty after trimming, creates a hotspot.
\<close>

theorem handleClick_label_cases:
  "(answer = None \<or> answer = Some [] \<longrightarrow> fst (handleClick event answer now s) = s) \<and>
   (shiftKey event \<and> lbl \<noteq> [] \<longrightarrow>
      hotspots (fst (handleClick event (Some lbl) now s)) =
        hotspots s @ [\<lparr>id_h = toString now,
                        position = (vec_x (point event), vec_y (point event),
                                    vec_z (point event)),
                        label = lbl\<rparr>]) \<and>
   (shiftKey event \<and> lbl \<noteq> [] \<and> trim_spec lbl = [] \<longrightarrow>
      length (hotspots (fst (handleClick event (Some lbl) now s)))
        = length (hotspots s) + 1)"
proof (intro conjI impI)
  assume "answer = None \<or> answer = Some []"
  then have "\<not> truthy answer" by auto
  then show "fst (handleClick event answer now s) = s"
    by (simp add: handleClick_def Let_def)
next
  assume "shiftKey event \<and> lbl \<noteq> []"
  then show "hotspots (fst (handleClick event (Some lbl) now s)) =
        hotspots s @ [\<lparr>id_h = toString now,
                        position = (vec_x (point event), vec_y (point event),
                                    vec_z (point event)),
                        label = lbl\<rparr>]"
    by (simp add: handleClick_def Let_def addHotspot_def setHotspots_def)
next
  assume "shiftKey event \<and> lbl \<noteq> [] \<and> trim_spec lbl = []"
  then show "length (hotspots (fst (handleClick event (Some lbl) now s)))
        = length (hotspots s) + 1"
    by (simp add: handleClick_def Let_def addHotspot_def setHotspots_def)
qed

text \<open>
  The theorem at a cancelled answer, an empty answer and an answer of two spaces to a
  shift-click.
\<close>

theorem handleClick_label_cases_witness:
  "fst (handleClick shift_click None 1730000000500 one_hotspot) = one_hotspot \<and>
   fst (handleClick shift_click (Some []) 1730000000500 one_hotspot) = one_hotspot \<and>
   shiftKey shift_click \<and> ''  '' \<noteq> [] \<and> trim_spec ''  '' = [] \<and>
   length (hotspots (fst (handleClick shift_click (Some ''  '') 1730000000500 one_hotspot)))
     = length (hotspots one_hotspot) + 1 \<and>
   label (last (hotspots (fst (handleClick shift_click (Some ''  '') 1730000000500
     one_hotspot)))) = ''  ''"
proof -
  note none = handleClick_label_cases [of None shift_click 1730000000500 one_hotspot "''  ''"]
  note empty = handleClick_label_cases [of "Some []" shift_click 1730000000500 one_hotspot "''  ''"]
  have sh: "shiftKey shift_click" by (simp add: shift_click_def)
  have ne: "''  '' \<noteq> []" by simp
  have blank: "trim_spec ''  '' = []" by (simp add: trim_spec_def isWhiteSpace_def)
  have a: "fst (handleClick shift_click None 1730000000500 one_hotspot) = one_hotspot"
    using none [THEN conjunct1] by simp
  have b: "fst (handleClick shift_click (Some []) 1730000000500 one_hotspot) = one_hotspot"
    using empty [THEN conjunct1] by simp
  have c: "hotspots (fst (handleClick shift_click (Some ''  '') 1730000000500 one_hotspot)) =
      hotspots one_hotspot @ [\<lparr>id_h = toString 1730000000500,
         position = (vec_x (point shift_click), vec_y (point shift_click),
                     vec_z (point shift_click)),
         label = ''  ''\<rparr>]"
    using none [THEN conjunct2, THEN conjunct1] sh ne by blast
  have d: "length (hotspots (fst (handleClick shift_click (Some ''  '') 1730000000500
      one_hotspot))) = length (hotspots one_hotspot) + 1"
    using none [THEN conjunct2, THEN conjunct2] sh ne blank by blast
  have e: "label (last (hotspots (fst (handleClick shift_click (Some ''  '') 1730000000500
      one_hotspot)))) = ''  ''"
    by (simp only: c last_snoc Hotspot.simps)
  from a b sh ne blank d e show ?thesis by (intro conjI)
qed

section \<open>Deleting a hotspot\<close>

lemma count_list_filter:
  "count_list (filter P xs) h = (if P h then count_list xs h else 0)"
  by (induction xs) auto

lemma length_filter_distinct_key:
  "distinct (map f xs) \<Longrightarrow> i \<in> f ` set xs \<Longrightarrow> length (filter (\<lambda>h. f h = i) xs) = 1"
proof (induction xs)
  case Nil
  then show ?case by simp
next
  case (Cons a xs)
  show ?case
  proof (cases "f a = i")
    case True
    with Cons.prems have "i \<notin> f ` set xs" by auto
    then have "filter (\<lambda>h. f h = i) xs = []" by (auto simp: filter_empty_conv)
    with True show ?thesis by simp
  next
    case False
    with Cons show ?thesis by auto
  qed
qed

lemma length_filter_split:
  "length (filter (\<lambda>h. f h \<noteq> i) xs) + length (filter (\<lambda>h. f h = i) xs) = length xs"
  by (induction xs) auto

text \<open>
  Claim C5 as stated fails on a collection in which the id occurs twice: both hotspots go,
  and the count drops by two. Such a collection is reachable, by two shift-clicks that read
  the same value from the clock.
\<close>

theorem deleteHotspot_counterexample:
  "reachable same_tick \<and>
   ''1730000000000'' \<in> id_h ` set (hotspots same_tick) \<and>
   length (hotspots same_tick) = 2 \<and>
   length (hotspots (deleteHotspot ''1730000000000'' same_tick)) = 0"
  using reachable_same_tick
  by (simp add: same_tick_eq deleteHotspot_def setHotspots_def)

text \<open>
  Claim C5, amended. For every session, \<^verbatim>\<open>deleteHotspot\<close> with an id that no hotspot
  carries leaves the session unchanged; with any id, that id is absent afterwards and the
  count drops by the number of hotspots that carried it, which is exactly one when the id
  is present and the ids of the collection are distinct.
\<close>

theorem deleteHotspot_count:
  "(i \<notin> id_h ` set (hotspots s) \<longrightarrow> deleteHotspot i s = s) \<and>
   i \<notin> id_h ` set (hotspots (deleteHotspot i s)) \<and>
   length (hotspots (deleteHotspot i s)) + length (filter (\<lambda>h. id_h h = i) (hotspots s))
     = length (hotspots s) \<and>
   (i \<in> id_h ` set (hotspots s) \<and> distinct (map id_h (hotspots s)) \<longrightarrow>
      length (hotspots (deleteHotspot i s)) + 1 = length (hotspots s))"
proof -
  have absent: "deleteHotspot i s = s" if "i \<notin> id_h ` set (hotspots s)"
  proof -
    from that have "filter (\<lambda>h. id_h h \<noteq> i) (hotspots s) = hotspots s"
      by (auto simp: filter_id_conv)
    then show ?thesis by (simp add: deleteHotspot_def setHotspots_def)
  qed
  have gone: "i \<notin> id_h ` set (hotspots (deleteHotspot i s))"
    by (auto simp: deleteHotspot_def setHotspots_def)
  have cnt: "length (hotspots (deleteHotspot i s)) + length (filter (\<lambda>h. id_h h = i) (hotspots s))
     = length (hotspots s)"
    by (simp add: deleteHotspot_def setHotspots_def length_filter_split)
  have one: "length (hotspots (deleteHotspot i s)) + 1 = length (hotspots s)"
    if "i \<in> id_h ` set (hotspots s)" and "distinct (map id_h (hotspots s))"
    using cnt length_filter_distinct_key [OF that(2) that(1)] by simp
  show ?thesis
  proof (intro conjI impI)
    assume "i \<notin> id_h ` set (hotspots s)"
    then show "deleteHotspot i s = s" by (rule absent)
  next
    show "i \<notin> id_h ` set (hotspots (deleteHotspot i s))" by (rule gone)
  next
    show "length (hotspots (deleteHotspot i s)) + length (filter (\<lambda>h. id_h h = i) (hotspots s))
      = length (hotspots s)" by (rule cnt)
  next
    assume "i \<in> id_h ` set (hotspots s) \<and> distinct (map id_h (hotspots s))"
    then show "length (hotspots (deleteHotspot i s)) + 1 = length (hotspots s)"
      using one by blast
  qed
qed

text \<open>The theorem at the id of the only hotspot of a session, and at an id not present.\<close>

theorem deleteHotspot_count_witness:
  "''1730000000000'' \<in> id_h ` set (hotspots one_hotspot) \<and>
   distinct (map id_h (hotspots one_hotspot)) \<and>
   length (hotspots (deleteHotspot ''1730000000000'' one_hotspot)) + 1
     = length (hotspots one_hotspot) \<and>
   ''42'' \<notin> id_h ` set (hotspots one_hotspot) \<and>
   deleteHotspot ''42'' one_hotspot = one_hotspot"
  using deleteHotspot_count [of "''1730000000000''" one_hotspot]
    deleteHotspot_count [of "''42''" one_hotspot]
  by (simp add: one_hotspot_eq)

text \<open>
  Claim C10. For every session and id, the hotspots after \<^verbatim>\<open>deleteHotspot\<close> are a
  subsequence of the hotspots before (the same records, with their position and label, in
  the same relative order), none of them carries the given id, and every hotspot with
  another id occurs as often as before; so all hotspots with the given id are removed and
  nothing else is. The other state cells are not touched.
\<close>

theorem deleteHotspot_keeps_others:
  "subseq (hotspots (deleteHotspot i s)) (hotspots s) \<and>
   (\<forall>h \<in> set (hotspots (deleteHotspot i s)). id_h h \<noteq> i) \<and>
   (\<forall>h. id_h h \<noteq> i \<longrightarrow>
      count_list (hotspots (deleteHotspot i s)) h = count_list (hotspots s) h) \<and>
   modelUrl (deleteHotspot i s) = modelUrl s \<and>
   isLoading (deleteHotspot i s) = isLoading s \<and>
   error (deleteHotspot i s) = error s"
  by (simp add: deleteHotspot_def setHotspots_def count_list_filter)

text \<open>
  The theorem at a session with three hotspots, deleting the id of the last one: the two
  that share the other id stay.
\<close>

theorem deleteHotspot_keeps_others_witness:
  "subseq (hotspots (deleteHotspot ''1730000000500'' mixed)) (hotspots mixed) \<and>
   \<lparr>id_h = ''1730000000000'', position = (1, 2, 3), label = ''Wheel''\<rparr>
     \<in> set (hotspots (deleteHotspot ''1730000000500'' mixed)) \<and>
   id_h \<lparr>id_h = ''1730000000000'', position = (1::int, 2::int, 3::int), label = ''Wheel''\<rparr>
     \<noteq> ''1730000000500'' \<and>
   count_list (hotspots (deleteHotspot ''1730000000500'' mixed))
     \<lparr>id_h = ''1730000000000'', position = (1, 2, 3), label = ''Wheel''\<rparr> = 1"
proof -
  let ?h = "\<lparr>id_h = ''1730000000000'', position = (1::int, 2::int, 3::int), label = ''Wheel''\<rparr>"
  note th = deleteHotspot_keeps_others [of "''1730000000500''" mixed]
  have sub: "subseq (hotspots (deleteHotspot ''1730000000500'' mixed)) (hotspots mixed)"
    by (rule th [THEN conjunct1])
  have ne: "id_h ?h \<noteq> ''1730000000500''" by simp
  have mem: "?h \<in> set (hotspots (deleteHotspot ''1730000000500'' mixed))"
    by (simp add: mixed_eq deleteHotspot_def setHotspots_def)
  have "count_list (hotspots (deleteHotspot ''1730000000500'' mixed)) ?h
          = count_list (hotspots mixed) ?h"
    using th [THEN conjunct2, THEN conjunct2, THEN conjunct1, rule_format, OF ne] .
  also have "\<dots> = 1" by (simp add: mixed_eq)
  finally have cnt: "count_list (hotspots (deleteHotspot ''1730000000500'' mixed)) ?h = 1" .
  from sub mem ne cnt show ?thesis by (intro conjI)
qed

section \<open>The extension test\<close>

text \<open>
  Claim C9. For every file name, the import accepts it exactly when it ends in a dot
  followed by \<^verbatim>\<open>g\<close>, \<^verbatim>\<open>l\<close>, \<^verbatim>\<open>b\<close>, each in either case; so \<^verbatim>\<open>.glb\<close> and \<^verbatim>\<open>.GLB\<close> after
  any stem are accepted. Nothing else of the file is validated: an accepted name leads to
  the load (the model URL is the one \<^verbatim>\<open>URL.createObjectURL\<close> returns), a rejected name
  to the error message alone, and two files whose names fare alike in the test give the
  same result whatever their other attributes.
\<close>

theorem import_validation_extension_only:
  "(acceptsName nm \<longleftrightarrow>
      (\<exists>pre a b c. nm = pre @ [CHR ''.'', a, b, c] \<and>
         (a = CHR ''g'' \<or> a = CHR ''G'') \<and> (b = CHR ''l'' \<or> b = CHR ''L'') \<and>
         (c = CHR ''b'' \<or> c = CHR ''B''))) \<and>
   acceptsName (stem @ ''.glb'') \<and> acceptsName (stem @ ''.GLB'') \<and>
   (acceptsName (name f) \<longrightarrow>
      modelUrl (fst (handleFileUpload (Some f) (Inr url) s)) = Some url) \<and>
   (\<not> acceptsName (name f) \<longrightarrow>
      handleFileUpload (Some f) created s = (setError (Some ''Please select a .GLB file'') s, [])) \<and>
   (acceptsName (name f) = acceptsName (name f') \<longrightarrow>
      handleFileUpload (Some f) created s = handleFileUpload (Some f') created s)"
proof (intro conjI impI)
  show "acceptsName nm \<longleftrightarrow>
      (\<exists>pre a b c. nm = pre @ [CHR ''.'', a, b, c] \<and>
         (a = CHR ''g'' \<or> a = CHR ''G'') \<and> (b = CHR ''l'' \<or> b = CHR ''L'') \<and>
         (c = CHR ''b'' \<or> c = CHR ''B''))"
    by (rule acceptsName_iff)
next
  have "\<exists>pre a b c. stem @ ''.glb'' = pre @ [CHR ''.'', a, b, c] \<and>
         (a = CHR ''g'' \<or> a = CHR ''G'') \<and> (b = CHR ''l'' \<or> b = CHR ''L'') \<and>
         (c = CHR ''b'' \<or> c = CHR ''B'')"
    by (intro exI [of _ stem] exI [of _ "CHR ''g''"] exI [of _ "CHR ''l''"] exI [of _ "CHR ''b''"]) simp
  then show "acceptsName (stem @ ''.glb'')" by (simp only: acceptsName_iff)
next
  have "\<exists>pre a b c. stem @ ''.GLB'' = pre @ [CHR ''.'', a, b, c] \<and>
         (a = CHR ''g'' \<or> a = CHR ''G'') \<and> (b = CHR ''l'' \<or> b = CHR ''L'') \<and>
         (c = CHR ''b'' \<or> c = CHR ''B'')"
    by (intro exI [of _ stem] exI [of _ "CHR ''G''"] exI [of _ "CHR ''L''"] exI [of _ "CHR ''B''"]) simp
  then show "acceptsName (stem @ ''.GLB'')" by (simp only: acceptsName_iff)
next
  assume "acceptsName (name f)"
  then show "modelUrl (fst (handleFileUpload (Some f) (Inr url) s)) = Some url"
    by (simp add: handleFileUpload_def setter_defs)
next
  assume "\<not> acceptsName (name f)"
  then show "handleFileUpload (Some f) created s
      = (setError (Some ''Please select a .GLB file'') s, [])"
    by (simp add: handleFileUpload_def)
next
  assume "acceptsName (name f) = acceptsName (name f')"
  then show "handleFileUpload (Some f) created s = handleFileUpload (Some f') created s"
    by (simp add: handleFileUpload_def)
qed

text \<open>
  The theorem at \<^verbatim>\<open>scene.glb\<close> against \<^verbatim>\<open>SCENE.GLB\<close> (a file of another type and size),
  and at \<^verbatim>\<open>notes.txt\<close>.
\<close>

theorem import_validation_extension_only_witness:
  "acceptsName (name scene_glb) \<and>
   modelUrl (fst (handleFileUpload (Some scene_glb) (Inr ''blob:next'') one_hotspot))
     = Some ''blob:next'' \<and>
   acceptsName (name scene_glb) = acceptsName (name upper_glb) \<and>
   handleFileUpload (Some scene_glb) (Inr ''blob:next'') one_hotspot
     = handleFileUpload (Some upper_glb) (Inr ''blob:next'') one_hotspot \<and>
   \<not> acceptsName (name notes_txt) \<and>
   handleFileUpload (Some notes_txt) (Inr ''blob:next'') one_hotspot
     = (setError (Some ''Please select a .GLB file'') one_hotspot, [])"
proof -
  note th = import_validation_extension_only
    [of _ _ scene_glb "''blob:next''" one_hotspot "Inr ''blob:next''" upper_glb]
  note th' = import_validation_extension_only
    [of _ _ notes_txt "''blob:next''" one_hotspot "Inr ''blob:next''" upper_glb]
  have same: "acceptsName (name scene_glb) = acceptsName (name upper_glb)"
    by (simp add: accepts_scene accepts_upper)
  have a: "modelUrl (fst (handleFileUpload (Some scene_glb) (Inr ''blob:next'') one_hotspot))
     = Some ''blob:next''"
    using th [THEN conjunct2, THEN conjunct2, THEN conjunct2, THEN conjunct1, rule_format,
        OF accepts_scene] .
  have b: "handleFileUpload (Some scene_glb) (Inr ''blob:next'') one_hotspot
     = handleFileUpload (Some upper_glb) (Inr ''blob:next'') one_hotspot"
    using th [THEN conjunct2, THEN conjunct2, THEN conjunct2, THEN conjunct2, THEN conjunct2,
        rule_format, OF same] .
  have c: "handleFileUpload (Some notes_txt) (Inr ''blob:next'') one_hotspot
     = (setError (Some ''Please select a .GLB file'') one_hotspot, [])"
    using th' [THEN conjunct2, THEN conjunct2, THEN conjunct2, THEN conjunct2, THEN conjunct1,
        rule_format, OF rejects_notes] .
  from accepts_scene a same b rejects_notes c show ?thesis by (intro conjI)
qed

section \<open>Adding a hotspot\<close>

text \<open>
  Claim C1 as stated fails: the id is the decimal rendering of the clock reading, and a
  second hotspot added at the same clock reading gets the id of the first. The session is
  reachable, offers the click, and the label is not empty.
\<close>

theorem addHotspot_same_tick_counterexample:
  "reachable one_hotspot \<and>
   offered one_hotspot (ModelClick shift_click (Some ''Wheel'') 1730000000000) \<and>
   ''Wheel'' \<noteq> [] \<and>
   id_h (last (hotspots (addHotspot 1730000000000 (Vector3 1 2 3) ''Wheel'' one_hotspot)))
     \<in> id_h ` set (hotspots one_hotspot)"
  using reachable_one_hotspot
  by (simp add: one_hotspot_eq addHotspot_def setHotspots_def toString_tick)

text \<open>
  Claim C1, amended. For every session and every label, \<^verbatim>\<open>addHotspot\<close> increases the
  hotspot count by exactly one, appending at the end a hotspot with the given position and
  label whose id is the decimal rendering of the clock reading. That id differs from the
  id of every hotspot present whenever the ids present are the renderings of clock
  readings that all differ from the current one.
\<close>

theorem addHotspot_appends:
  "length (hotspots (addHotspot now pos lbl s)) = length (hotspots s) + 1 \<and>
   hotspots (addHotspot now pos lbl s) =
     hotspots s @ [\<lparr>id_h = toString now, position = (vec_x pos, vec_y pos, vec_z pos),
                    label = lbl\<rparr>] \<and>
   (map id_h (hotspots s) = map toString ts \<and> now \<notin> set ts \<longrightarrow>
      id_h (last (hotspots (addHotspot now pos lbl s))) \<notin> id_h ` set (hotspots s))"
proof (intro conjI impI)
  show "length (hotspots (addHotspot now pos lbl s)) = length (hotspots s) + 1"
    by (simp add: addHotspot_def setHotspots_def)
next
  show "hotspots (addHotspot now pos lbl s) =
     hotspots s @ [\<lparr>id_h = toString now, position = (vec_x pos, vec_y pos, vec_z pos),
                    label = lbl\<rparr>]"
    by (simp add: addHotspot_def setHotspots_def)
next
  assume a: "map id_h (hotspots s) = map toString ts \<and> now \<notin> set ts"
  have new: "id_h (last (hotspots (addHotspot now pos lbl s))) = toString now"
    by (simp add: addHotspot_def setHotspots_def)
  have "id_h ` set (hotspots s) = set (map id_h (hotspots s))" by simp
  also from a have "\<dots> = toString ` set ts" by simp
  finally have ids: "id_h ` set (hotspots s) = toString ` set ts" .
  have "toString now \<notin> toString ` set ts"
  proof
    assume "toString now \<in> toString ` set ts"
    then obtain t where "t \<in> set ts" and "toString now = toString t" by auto
    then have "now \<in> set ts" using toString_inj [of now t] by simp
    with a show False by simp
  qed
  with new ids show "id_h (last (hotspots (addHotspot now pos lbl s))) \<notin> id_h ` set (hotspots s)"
    by simp
qed

text \<open>The theorem at a second hotspot added half a second after the first.\<close>

theorem addHotspot_appends_witness:
  "map id_h (hotspots one_hotspot) = map toString [1730000000000] \<and>
   (1730000000500::int) \<notin> set [1730000000000] \<and>
   length (hotspots (addHotspot 1730000000500 (Vector3 1 2 3) ''Door'' one_hotspot)) = 2 \<and>
   id_h (last (hotspots (addHotspot 1730000000500 (Vector3 1 2 3) ''Door'' one_hotspot)))
     \<notin> id_h ` set (hotspots one_hotspot)"
proof -
  have h: "map id_h (hotspots one_hotspot) = map toString [1730000000000] \<and>
     (1730000000500::int) \<notin> set [1730000000000]"
    by (simp add: one_hotspot_eq toString_tick)
  note th = addHotspot_appends [of 1730000000500 "Vector3 1 2 3" "''Door''" one_hotspot
      "[1730000000000]"]
  have len: "length (hotspots (addHotspot 1730000000500 (Vector3 1 2 3) ''Door'' one_hotspot)) = 2"
    using th [THEN conjunct1] by (simp add: one_hotspot_eq)
  have fresh: "id_h (last (hotspots (addHotspot 1730000000500 (Vector3 1 2 3) ''Door'' one_hotspot)))
     \<notin> id_h ` set (hotspots one_hotspot)"
    using th [THEN conjunct2, THEN conjunct2, rule_format, OF h] .
  from h len fresh show ?thesis by (intro conjI) simp_all
qed

section \<open>No model, no hotspots\<close>

text \<open>
  \<^verbatim>\<open>addHotspot\<close> itself does not look at \<^verbatim>\<open>modelUrl\<close>; what keeps hotspots away from
  a session without a model is that the click handler is only rendered with a model.
\<close>

lemma addHotspot_unguarded:
  "modelUrl (addHotspot now pos lbl initial) = None \<and> hotspots (addHotspot now pos lbl initial) \<noteq> []"
  by (simp add: addHotspot_def setHotspots_def initial_def)

lemma upload_resets_or_keeps:
  "hotspots (fst (handleFileUpload chosen created s)) = [] \<or>
   (hotspots (fst (handleFileUpload chosen created s)) = hotspots s \<and>
    modelUrl (fst (handleFileUpload chosen created s)) = modelUrl s)"
  by (cases chosen; cases created) (simp_all add: handleFileUpload_def setter_defs Let_def)

lemma reachable_falsy_url_no_hotspots:
  "reachable s \<Longrightarrow> \<not> truthy (modelUrl s) \<Longrightarrow> hotspots s = []"
proof (induction rule: reachable.induct)
  case reachable_initial
  show ?case by (simp add: initial_def)
next
  case (reachable_step s e)
  show ?case
  proof (cases e)
    case (FileChosen chosen created)
    with reachable_step.IH reachable_step.prems upload_resets_or_keeps [of chosen created s]
    show ?thesis by auto
  next
    case (ModelClick event answer now)
    with reachable_step.hyps(2) have up: "truthy (modelUrl s)" by simp
    have "modelUrl (fst (handleClick event answer now s)) = modelUrl s"
      by (simp add: handleClick_def addHotspot_def setHotspots_def Let_def)
    with up reachable_step.prems ModelClick show ?thesis by simp
  next
    case (DeleteClick i)
    with reachable_step show ?thesis
      by (simp add: deleteHotspot_def setHotspots_def)
  next
    case ClearClick
    then show ?thesis by (simp add: clearHotspots_def setHotspots_def)
  qed
qed

text \<open>
  Claim C3. In every session reachable from the initial one by the events the rendered
  tree offers (choosing a file, clicking on the model, a delete button, the clear button),
  if \<^verbatim>\<open>modelUrl\<close> is \<^verbatim>\<open>null\<close> then the hotspot collection is empty.
\<close>

theorem no_model_no_hotspots:
  "reachable s \<Longrightarrow> modelUrl s = None \<Longrightarrow> hotspots s = []"
  using reachable_falsy_url_no_hotspots [of s] by simp

text \<open>The theorem at the session after \<^verbatim>\<open>notes.txt\<close> was chosen and rejected.\<close>

theorem no_model_no_hotspots_witness:
  "reachable (step (initial :: int Session) (FileChosen (Some notes_txt) (Inr ''blob:notes''))) \<and>
   modelUrl (step (initial :: int Session) (FileChosen (Some notes_txt) (Inr ''blob:notes''))) = None \<and>
   hotspots (step (initial :: int Session) (FileChosen (Some notes_txt) (Inr ''blob:notes''))) = []"
proof -
  let ?s = "step (initial :: int Session) (FileChosen (Some notes_txt) (Inr ''blob:notes''))"
  have r: "reachable ?s"
    by (rule reachable_step [OF reachable_initial]) simp
  have n: "modelUrl ?s = None"
    by (simp add: handleFileUpload_def rejects_notes setError_def initial_def)
  from r n no_model_no_hotspots [OF r n] show ?thesis by (intro conjI)
qed

end
